theory Spec2Isabelle
  imports Main
begin

section \<open>JavaScript values as the repository code observes them\<close>

text \<open>
  Thrown values. The code throws \<^verbatim>\<open>new Error(message)\<close>, which has no \<^verbatim>\<open>code\<close>
  property; a failed module import is an error whose \<^verbatim>\<open>code\<close> is a string; the
  runtime throws a TypeError when a property of \<^verbatim>\<open>undefined\<close> or \<^verbatim>\<open>null\<close> is read or
  a value that is not a function is called.
\<close>

datatype error = TypeError | Error "string option" string

fun error_code :: "error \<Rightarrow> string option" where
  "error_code TypeError = None"
| "error_code (Error c m) = c"

text \<open>
  Values. Numbers are abstracted to the integers plus NaN (zero and NaN are the falsy
  ones). A function value carries its \<^verbatim>\<open>name\<close> and the value a call without
  arguments returns. An object carries its own enumerable properties in the order of
  \<^verbatim>\<open>Object.keys\<close>, and the other properties a read can reach (non-enumerable ones,
  accessors and the prototype chain, \<^verbatim>\<open>constructor\<close> among them) with the values a
  read yields. \<^verbatim>\<open>JDate t\<close> is a native \<^verbatim>\<open>Date\<close>; it has no own enumerable property.
  An array is an object whose own keys are its indices.
\<close>

datatype jsval =
    JUndefined
  | JNull
  | JBool bool
  | JNum int
  | JNaN
  | JStr string
  | JDate int
  | JFun string jsval
  | JObj "(string \<times> jsval) list" "(string \<times> jsval) list"

text \<open>\<^verbatim>\<open>!v\<close> is the negation of \<open>truthy v\<close>.\<close>

fun truthy :: "jsval \<Rightarrow> bool" where
  "truthy JUndefined = False"
| "truthy JNull = False"
| "truthy (JBool b) = b"
| "truthy (JNum n) = (n \<noteq> 0)"
| "truthy JNaN = False"
| "truthy (JStr s) = (s \<noteq> [])"
| "truthy (JDate t) = True"
| "truthy (JFun n r) = True"
| "truthy (JObj own inh) = True"

fun typeof :: "jsval \<Rightarrow> string" where
  "typeof JUndefined = ''undefined''"
| "typeof JNull = ''object''"
| "typeof (JBool b) = ''boolean''"
| "typeof (JNum n) = ''number''"
| "typeof JNaN = ''number''"
| "typeof (JStr s) = ''string''"
| "typeof (JDate t) = ''object''"
| "typeof (JFun n r) = ''function''"
| "typeof (JObj own inh) = ''object''"

text \<open>
  \<^verbatim>\<open>k in v\<close>, for an object \<open>v\<close> (the code guards the test with
  \<^verbatim>\<open>typeof v === 'object'\<close> on a truthy \<open>v\<close>). The only key tested is
  \<^verbatim>\<open>toDate\<close>, which a \<^verbatim>\<open>Date\<close> does not have.
\<close>

fun has_property :: "string \<Rightarrow> jsval \<Rightarrow> bool" where
  "has_property k (JObj own inh) = (k \<in> fst ` set own \<or> k \<in> fst ` set inh)"
| "has_property k v = False"

text \<open>
  \<^verbatim>\<open>v[k]\<close> for a data property of an object: an own property first, then the
  inherited ones, \<^verbatim>\<open>undefined\<close> when there is none.
\<close>

fun get_prop :: "jsval \<Rightarrow> string \<Rightarrow> jsval" where
  "get_prop (JObj own inh) k =
     (case map_of own k of
        Some x \<Rightarrow> x
      | None \<Rightarrow> (case map_of inh k of Some x \<Rightarrow> x | None \<Rightarrow> JUndefined))"
| "get_prop v k = JUndefined"

text \<open>\<^verbatim>\<open>f()\<close>: a call of a value that is not a function throws.\<close>

fun call :: "jsval \<Rightarrow> error + jsval" where
  "call (JFun n r) = Inr r"
| "call v = Inl TypeError"

text \<open>
  \<^verbatim>\<open>v.constructor\<close>: primitives are boxed, so a boolean answers with \<^verbatim>\<open>Boolean\<close>, a
  number with \<^verbatim>\<open>Number\<close>, a string with \<^verbatim>\<open>String\<close>; an object answers with whatever
  its \<^verbatim>\<open>constructor\<close> property holds.
\<close>

fun constructor_of :: "jsval \<Rightarrow> error + jsval" where
  "constructor_of JUndefined = Inl TypeError"
| "constructor_of JNull = Inl TypeError"
| "constructor_of (JBool b) = Inr (JFun ''Boolean'' JUndefined)"
| "constructor_of (JNum n) = Inr (JFun ''Number'' JUndefined)"
| "constructor_of JNaN = Inr (JFun ''Number'' JUndefined)"
| "constructor_of (JStr s) = Inr (JFun ''String'' JUndefined)"
| "constructor_of (JDate t) = Inr (JFun ''Date'' JUndefined)"
| "constructor_of (JFun n r) = Inr (JFun ''Function'' JUndefined)"
| "constructor_of (JObj own inh) = Inr (get_prop (JObj own inh) ''constructor'')"

text \<open>\<^verbatim>\<open>c.name\<close>, read from what \<^verbatim>\<open>v.constructor\<close> gave.\<close>

fun name_of :: "jsval \<Rightarrow> error + jsval" where
  "name_of JUndefined = Inl TypeError"
| "name_of JNull = Inl TypeError"
| "name_of (JFun n r) = Inr (JStr n)"
| "name_of (JObj own inh) = Inr (get_prop (JObj own inh) ''name'')"
| "name_of v = Inr JUndefined"

definition constructor_name :: "jsval \<Rightarrow> error + jsval" where
  "constructor_name v = (case constructor_of v of Inl e \<Rightarrow> Inl e | Inr c \<Rightarrow> name_of c)"

text \<open>The object literal \<^verbatim>\<open>{ k1: v1, ... }\<close>: a plain object, whose constructor is \<^verbatim>\<open>Object\<close>.\<close>

definition plain :: "(string \<times> jsval) list \<Rightarrow> jsval" where
  "plain ps = JObj ps [(''constructor'', JFun ''Object'' JUndefined)]"

text \<open>\<^verbatim>\<open>obj[k] = v\<close>: an existing key keeps its place, a new key goes last.\<close>

primrec assign :: "string \<Rightarrow> 'a \<Rightarrow> (string \<times> 'a) list \<Rightarrow> (string \<times> 'a) list" where
  "assign k v [] = [(k, v)]"
| "assign k v (p # ps) = (if fst p = k then (k, v) # ps else p # assign k v ps)"

section \<open>transformFirestoreTypes\<close>

text \<open>
  \<^verbatim>\<open>transformFirestoreTypes(obj)\<close> runs the callback \<open>transformKey\<close> on every key of
  \<^verbatim>\<open>Object.keys(obj)\<close> in order, assigns the result to \<^verbatim>\<open>obj[key]\<close> and returns
  \<open>obj\<close>. The keys of an object are distinct, so the walk is a map over the own
  properties; a throw in one callback ends the walk. \<^verbatim>\<open>Object.keys\<close> throws on
  \<^verbatim>\<open>undefined\<close> and \<^verbatim>\<open>null\<close>; the other values that are not \<open>JObj\<close> have no own
  enumerable property the callback would change.
\<close>

fun transformFirestoreTypes :: "jsval \<Rightarrow> error + jsval"
  and forEachKey :: "(string \<times> jsval) list \<Rightarrow> error + (string \<times> jsval) list"
  and transformKey :: "jsval \<Rightarrow> error + jsval"
where
  "transformFirestoreTypes (JObj own inh) =
     (case forEachKey own of Inl e \<Rightarrow> Inl e | Inr own' \<Rightarrow> Inr (JObj own' inh))"
| "transformFirestoreTypes JUndefined = Inl TypeError"
| "transformFirestoreTypes JNull = Inl TypeError"
| "transformFirestoreTypes v = Inr v"
| "forEachKey [] = Inr []"
| "forEachKey (kv # rest) =
     (case transformKey (snd kv) of
        Inl e \<Rightarrow> Inl e
      | Inr v' \<Rightarrow>
          (case forEachKey rest of
             Inl e \<Rightarrow> Inl e
           | Inr rest' \<Rightarrow> Inr ((fst kv, v') # rest')))"
| "transformKey v =
     (if \<not> truthy v then Inr v
      else if typeof v = ''object'' \<and> has_property ''toDate'' v then call (get_prop v ''toDate'')
      else
        (case constructor_name v of
           Inl e \<Rightarrow> Inl e
         | Inr n \<Rightarrow>
             if n = JStr ''GeoPoint'' then
               Inr (plain [(''latitude'', get_prop v ''latitude''), (''longitude'', get_prop v ''longitude'')])
             else if n = JStr ''DocumentReference'' then
               Inr (plain [(''id'', get_prop v ''id''), (''path'', get_prop v ''path'')])
             else if typeof v = ''object'' then transformFirestoreTypes v
             else Inr v))"

declare transformKey.simps [simp del]

text \<open>
  The loop as it is written, for comparison: \<^verbatim>\<open>forEach\<close> visits the keys in order, reads
  \<^verbatim>\<open>obj[key]\<close> from the object as the rounds before left it and assigns the callback's
  result to \<^verbatim>\<open>obj[key]\<close>. On an object, whose keys are distinct, it is
  \<open>forEachKey\<close> (lemma \<open>forEachKey_in_place\<close>).
\<close>

definition own_value :: "(string \<times> jsval) list \<Rightarrow> string \<Rightarrow> jsval" where
  "own_value obj k = (case map_of obj k of Some v \<Rightarrow> v | None \<Rightarrow> JUndefined)"

fun forEach_in_place ::
  "(jsval \<Rightarrow> error + jsval) \<Rightarrow> string list \<Rightarrow> (string \<times> jsval) list \<Rightarrow>
   error + (string \<times> jsval) list"
where
  "forEach_in_place f [] obj = Inr obj"
| "forEach_in_place f (k # ks) obj =
     (case f (own_value obj k) of
        Inl e \<Rightarrow> Inl e
      | Inr v' \<Rightarrow> forEach_in_place f ks (assign k v' obj))"

section \<open>Metadata and repository construction\<close>

text \<open>
  An entity class, identified by its \<^verbatim>\<open>name\<close>. The metadata records are the objects the
  decorators hand to \<^verbatim>\<open>setCollection\<close>: \<^verbatim>\<open>{name, entityConstructor}\<close> for a collection,
  with \<^verbatim>\<open>parentEntityConstructor\<close> and \<^verbatim>\<open>propertyKey\<close> added for a sub-collection; the
  full metadata of a collection adds the list of its sub-collections.
\<close>

datatype IEntityConstructor = Class string

fun class_name :: "IEntityConstructor \<Rightarrow> string" where
  "class_name (Class n) = n"

record CollectionMetadata =
  name :: string
  entityConstructor :: IEntityConstructor

record SubCollectionMetadata = CollectionMetadata +
  parentEntityConstructor :: IEntityConstructor
  propertyKey :: string

record FullCollectionMetadata = CollectionMetadata +
  subCollections :: "SubCollectionMetadata list"

record MetadataStorageConfig =
  validateModels :: bool

text \<open>
  Modelled from the spec: \<^verbatim>\<open>MetadataStorage\<close> (\<^verbatim>\<open>./MetadataStorage\<close>,
  \<^verbatim>\<open>./MetadataUtils\<close>) is not among the sources. The object \<^verbatim>\<open>getMetadataStorage()\<close>
  returns is taken as it is used: \<^verbatim>\<open>firestoreRef\<close> is \<^verbatim>\<open>undefined\<close> (\<open>None\<close>) until the
  store connection is established, and \<^verbatim>\<open>getCollection\<close> is the registry's lookup, a
  parameter here: it answers with a descriptor, with a falsy value (\<open>None\<close>), or it
  raises.
\<close>

record 'fs MetadataStorage =
  getCollection :: "string + IEntityConstructor \<Rightarrow> error + FullCollectionMetadata option"
  config :: MetadataStorageConfig
  firestoreRef :: "'fs option"

text \<open>\<^verbatim>\<open>firestoreRef.collection(path)\<close>: the store's handle of the collection at a path.\<close>

datatype 'fs CollectionReference = CollectionRef 'fs string

record 'fs AbstractFirestoreRepository =
  colMetadata :: FullCollectionMetadata
  path :: string
  repo_config :: MetadataStorageConfig
  firestoreColRef :: "'fs CollectionReference"

text \<open>
  The constructor. \<^verbatim>\<open>pathOrConstructor\<close> is a string (\<open>Inl\<close>) or an entity class
  (\<open>Inr\<close>); \<^verbatim>\<open>typeof pathOrConstructor === 'string'\<close> tells them apart.
\<close>

definition pathOrConstructor_label :: "string + IEntityConstructor \<Rightarrow> string" where
  "pathOrConstructor_label pathOrConstructor =
     (case pathOrConstructor of Inl p \<Rightarrow> p | Inr c \<Rightarrow> class_name c)"

definition new_AbstractFirestoreRepository ::
  "'fs MetadataStorage \<Rightarrow> string + IEntityConstructor \<Rightarrow> error + 'fs AbstractFirestoreRepository"
where
  "new_AbstractFirestoreRepository storage pathOrConstructor =
     (case firestoreRef storage of
        None \<Rightarrow> Inl (Error None ''Firestore must be initialized first'')
      | Some fs \<Rightarrow>
          (case getCollection storage pathOrConstructor of
             Inl e \<Rightarrow> Inl e
           | Inr None \<Rightarrow>
               Inl (Error None
                 (''There is no metadata stored for '' @ [CHR 0x22] @
                    pathOrConstructor_label pathOrConstructor @ [CHR 0x22]))
           | Inr (Some md) \<Rightarrow>
               (let p = (case pathOrConstructor of Inl s \<Rightarrow> s | Inr c \<Rightarrow> name md)
                in Inr \<lparr>colMetadata = md, path = p, repo_config = config storage,
                        firestoreColRef = CollectionRef fs p\<rparr>)))"

section \<open>Hydration\<close>

text \<open>
  Modelled from the spec: \<^verbatim>\<open>getRepository\<close> (\<^verbatim>\<open>./helpers\<close>) and
  \<^verbatim>\<open>FirestoreTransaction.getRepository\<close> (\<^verbatim>\<open>./Transaction/FirestoreTransaction\<close>) are
  not among the sources. Each gives a repository bound to the path it is handed: a
  standalone one, or one scoped to the transaction (a number identifies the transaction
  context) the \<^verbatim>\<open>FirestoreTransaction\<close> was made from.
\<close>

datatype repository = StandaloneRepository string | TransactionRepository nat string

definition getRepository :: "string \<Rightarrow> repository" where
  "getRepository p = StandaloneRepository p"

definition FirestoreTransaction_getRepository :: "nat \<Rightarrow> string \<Rightarrow> repository" where
  "FirestoreTransaction_getRepository tran p = TransactionRepository tran p"

text \<open>
  An entity is an instance of its class; a property holds a value or, once the
  sub-collections are wired, a repository.
\<close>

datatype field = Val jsval | Repo repository

record entity =
  entity_class :: IEntityConstructor
  props :: "(string \<times> field) list"

text \<open>
  \<^verbatim>\<open>{ ...base, ...obj }\<close> and \<^verbatim>\<open>Object.assign(base, obj)\<close>: the own enumerable properties of
  \<open>obj\<close> are assigned in order. Only an object is ever spread here (a document's data).
\<close>

fun own_enumerable :: "jsval \<Rightarrow> (string \<times> jsval) list" where
  "own_enumerable (JObj own inh) = own"
| "own_enumerable v = []"

definition assign_all :: "(string \<times> 'a) list \<Rightarrow> (string \<times> 'a) list \<Rightarrow> (string \<times> 'a) list" where
  "assign_all base ps = foldl (\<lambda>acc kv. assign (fst kv) (snd kv) acc) base ps"

text \<open>
  \<^verbatim>\<open>plainToClass(cls, plain)\<close> of class-transformer, for a class without transformation
  decorators: an instance of \<open>cls\<close> with the properties of \<open>plain\<close>.
\<close>

definition plainToClass :: "IEntityConstructor \<Rightarrow> (string \<times> jsval) list \<Rightarrow> entity" where
  "plainToClass cls plain_obj =
     \<lparr>entity_class = cls, props = map (\<lambda>kv. (fst kv, Val (snd kv))) plain_obj\<rparr>"

text \<open>\<^verbatim>\<open>entity[k]\<close>.\<close>

definition read_field :: "entity \<Rightarrow> string \<Rightarrow> field" where
  "read_field e k = (case map_of (props e) k of Some f \<Rightarrow> f | None \<Rightarrow> Val JUndefined)"

text \<open>
  A value inside a template literal: a string stands for itself; any other value goes
  through the runtime's string conversion, the parameter \<open>toString\<close>.
\<close>

definition template :: "(field \<Rightarrow> string) \<Rightarrow> field \<Rightarrow> string" where
  "template toString f = (case f of Val (JStr s) \<Rightarrow> s | _ \<Rightarrow> toString f)"

text \<open>
  \<^verbatim>\<open>initializeSubCollections(entity, tran)\<close>: \<open>tran\<close> is \<open>None\<close> when the argument is
  left out. Each round reads \<^verbatim>\<open>entity.id\<close> from the entity as the rounds before left it.
\<close>

definition initializeSubCollection ::
  "(field \<Rightarrow> string) \<Rightarrow> 'fs AbstractFirestoreRepository \<Rightarrow> nat option \<Rightarrow> entity \<Rightarrow>
   SubCollectionMetadata \<Rightarrow> entity"
where
  "initializeSubCollection toString this tran e subCol =
     (let pathWithSubCol =
            path this @ ''/'' @ template toString (read_field e ''id'') @ ''/'' @ name subCol
      in case tran of
           Some t \<Rightarrow>
             e\<lparr>props := assign (propertyKey subCol)
                  (Repo (FirestoreTransaction_getRepository t pathWithSubCol)) (props e)\<rparr>
         | None \<Rightarrow>
             e\<lparr>props := assign (propertyKey subCol)
                  (Repo (getRepository pathWithSubCol)) (props e)\<rparr>)"

definition initializeSubCollections ::
  "(field \<Rightarrow> string) \<Rightarrow> 'fs AbstractFirestoreRepository \<Rightarrow> entity \<Rightarrow> nat option \<Rightarrow> entity"
where
  "initializeSubCollections toString this e tran =
     foldl (initializeSubCollection toString this tran) e (subCollections (colMetadata this))"

text \<open>
  A document snapshot: \<^verbatim>\<open>doc.exists\<close>, \<^verbatim>\<open>doc.id\<close> and what \<^verbatim>\<open>doc.data()\<close> returns.
\<close>

record DocumentSnapshot =
  doc_exists :: bool
  doc_id :: string
  doc_data :: jsval

text \<open>
  \<^verbatim>\<open>extractTFromDocSnap(doc, tran)\<close>: \<open>Inr None\<close> is the returned \<^verbatim>\<open>null\<close>. The object
  literal \<^verbatim>\<open>{ id: doc.id, ...transformed }\<close> writes \<^verbatim>\<open>id\<close> first and then assigns the
  properties of the transformed data over it.
\<close>

definition extractTFromDocSnap ::
  "(field \<Rightarrow> string) \<Rightarrow> 'fs AbstractFirestoreRepository \<Rightarrow> DocumentSnapshot \<Rightarrow> nat option \<Rightarrow>
   error + entity option"
where
  "extractTFromDocSnap toString this doc tran =
     (if \<not> doc_exists doc then Inr None
      else
        (case transformFirestoreTypes (doc_data doc) of
           Inl e \<Rightarrow> Inl e
         | Inr transformed \<Rightarrow>
             (let e = plainToClass (entityConstructor (colMetadata this))
                        (assign_all [(''id'', JStr (doc_id doc))] (own_enumerable transformed))
              in Inr (Some (initializeSubCollections toString this e tran)))))"

text \<open>\<^verbatim>\<open>extractTFromColSnap(q, tran)\<close>: every document of the snapshot, in order.\<close>

fun extractTFromColSnap ::
  "(field \<Rightarrow> string) \<Rightarrow> 'fs AbstractFirestoreRepository \<Rightarrow> DocumentSnapshot list \<Rightarrow> nat option \<Rightarrow>
   error + entity option list"
where
  "extractTFromColSnap toString this [] tran = Inr []"
| "extractTFromColSnap toString this (d # ds) tran =
     (case extractTFromDocSnap toString this d tran of
        Inl e \<Rightarrow> Inl e
      | Inr x \<Rightarrow>
          (case extractTFromColSnap toString this ds tran of
             Inl e \<Rightarrow> Inl e
           | Inr xs \<Rightarrow> Inr (x # xs)))"

section \<open>Query builder entry points\<close>

text \<open>Decimal notation of a number, as a template literal prints an integer.\<close>

definition digit :: "nat \<Rightarrow> char" where
  "digit d = ''0123456789'' ! d"

function string_of_nat :: "nat \<Rightarrow> string" where
  "string_of_nat n = (if n < 10 then [digit n] else string_of_nat (n div 10) @ [digit (n mod 10)])"
  by pat_completeness auto
termination
  by (relation "measure id") auto

declare string_of_nat.simps [simp del]

definition string_of_int :: "int \<Rightarrow> string" where
  "string_of_int i = (if i < 0 then CHR ''-'' # string_of_nat (nat (- i)) else string_of_nat (nat i))"

text \<open>
  Modelled from the spec: \<^verbatim>\<open>QueryBuilder\<close> (\<^verbatim>\<open>./QueryBuilder\<close>) and the types of
  \<^verbatim>\<open>./types\<close> are not among the sources. A QueryLine is a field path, one of the six
  operators and a value; an OrderByClause is a field path and a direction; a QuerySpec
  is the ordered list of QueryLines, the optional limit and the ordered list of
  OrderByClauses. The field of a clause is given as a property path or as an accessor,
  which resolves to the dotted path it walks.
\<close>

datatype FirestoreOperators =
  Equal | LessThan | LessThanEqual | GreaterThan | GreaterThanEqual | ArrayContains

datatype OrderByDirection = Ascending | Descending

datatype IWherePropParam = PropertyPath string | Accessor "string list"

fun dotted :: "string list \<Rightarrow> string" where
  "dotted [] = []"
| "dotted [s] = s"
| "dotted (s # t # ss) = s @ ''.'' @ dotted (t # ss)"

fun field_path :: "IWherePropParam \<Rightarrow> string" where
  "field_path (PropertyPath s) = s"
| "field_path (Accessor ss) = dotted ss"

record IFireOrmQueryLine =
  ql_field :: string
  ql_operator :: FirestoreOperators
  ql_value :: jsval

record IOrderByParams =
  ob_field :: string
  ob_direction :: OrderByDirection

record QueryBuilder =
  executor :: nat
  queries :: "IFireOrmQueryLine list"
  limitVal :: "int option"
  orderByObj :: "IOrderByParams list"

text \<open>
  Objects live in a heap, a list addressed by position: \<^verbatim>\<open>new\<close> appends an object and
  gives its address. A method takes the heap and the address of \<^verbatim>\<open>this\<close> and returns
  what it returns or throws, with the heap it leaves.
\<close>

datatype 'fs obj = RepositoryObj "'fs AbstractFirestoreRepository" | QueryBuilderObj QueryBuilder

definition new_obj :: "'fs obj list \<Rightarrow> 'fs obj \<Rightarrow> nat \<times> 'fs obj list" where
  "new_obj heap ob = (length heap, heap @ [ob])"

definition new_QueryBuilder :: "'fs obj list \<Rightarrow> nat \<Rightarrow> nat \<times> 'fs obj list" where
  "new_QueryBuilder heap repo =
     new_obj heap (QueryBuilderObj \<lparr>executor = repo, queries = [], limitVal = None, orderByObj = []\<rparr>)"

text \<open>
  Modelled from the spec: every method of a builder returns a new builder carrying the
  QuerySpec extended by one clause; \<^verbatim>\<open>limit\<close> fails with InvalidArgumentError on a
  negative number and the last limit wins. A method called on an address that holds no
  builder throws.
\<close>

definition QueryBuilder_extend ::
  "'fs obj list \<Rightarrow> nat \<Rightarrow> (QueryBuilder \<Rightarrow> QueryBuilder) \<Rightarrow> (error + nat) \<times> 'fs obj list"
where
  "QueryBuilder_extend heap b f =
     (if b < length heap then
        (case heap ! b of
           QueryBuilderObj q \<Rightarrow>
             (case new_obj heap (QueryBuilderObj (f q)) of (b', heap') \<Rightarrow> (Inr b', heap'))
         | RepositoryObj r \<Rightarrow> (Inl TypeError, heap))
      else (Inl TypeError, heap))"

definition QueryBuilder_where ::
  "FirestoreOperators \<Rightarrow> 'fs obj list \<Rightarrow> nat \<Rightarrow> IWherePropParam \<Rightarrow> jsval \<Rightarrow> (error + nat) \<times> 'fs obj list"
where
  "QueryBuilder_where opr heap b p v =
     QueryBuilder_extend heap b
       (\<lambda>q. q\<lparr>queries := queries q @ [\<lparr>ql_field = field_path p, ql_operator = opr, ql_value = v\<rparr>]\<rparr>)"

definition QueryBuilder_limit :: "'fs obj list \<Rightarrow> nat \<Rightarrow> int \<Rightarrow> (error + nat) \<times> 'fs obj list" where
  "QueryBuilder_limit heap b n =
     (if n < 0 then (Inl (Error None ''InvalidArgumentError''), heap)
      else QueryBuilder_extend heap b (\<lambda>q. q\<lparr>limitVal := Some n\<rparr>))"

definition QueryBuilder_orderBy ::
  "OrderByDirection \<Rightarrow> 'fs obj list \<Rightarrow> nat \<Rightarrow> IWherePropParam \<Rightarrow> (error + nat) \<times> 'fs obj list"
where
  "QueryBuilder_orderBy dir heap b p =
     QueryBuilder_extend heap b
       (\<lambda>q. q\<lparr>orderByObj := orderByObj q @ [\<lparr>ob_field = field_path p, ob_direction = dir\<rparr>]\<rparr>)"

text \<open>
  Modelled from the spec: \<^verbatim>\<open>find()\<close> of a builder hands its QuerySpec to the
  \<^verbatim>\<open>execute\<close> of the repository it is bound to, with \<^verbatim>\<open>single = false\<close>. \<^verbatim>\<open>execute\<close> is
  abstract in the class, a parameter here. The repository's own \<^verbatim>\<open>find()\<close> is
  \<open>find_all\<close> below.
\<close>

definition QueryBuilder_find ::
  "('fs AbstractFirestoreRepository \<Rightarrow> IFireOrmQueryLine list \<Rightarrow> int option \<Rightarrow> IOrderByParams list \<Rightarrow>
     bool \<Rightarrow> 'r) \<Rightarrow> 'fs obj list \<Rightarrow> nat \<Rightarrow> error + 'r"
where
  "QueryBuilder_find execute heap b =
     (if b < length heap then
        (case heap ! b of
           QueryBuilderObj q \<Rightarrow>
             (if executor q < length heap then
                (case heap ! executor q of
                   RepositoryObj r \<Rightarrow> Inr (execute r (queries q) (limitVal q) (orderByObj q) False)
                 | QueryBuilderObj q' \<Rightarrow> Inl TypeError)
              else Inl TypeError)
         | RepositoryObj r \<Rightarrow> Inl TypeError)
      else Inl TypeError)"

text \<open>
  The entry points of the repository: each makes a builder bound to \<^verbatim>\<open>this\<close> and calls
  the builder's method of the same name on it.
\<close>

definition on_new_QueryBuilder ::
  "'fs obj list \<Rightarrow> nat \<Rightarrow> ('fs obj list \<Rightarrow> nat \<Rightarrow> (error + nat) \<times> 'fs obj list) \<Rightarrow>
   (error + nat) \<times> 'fs obj list"
where
  "on_new_QueryBuilder heap this m =
     (case new_QueryBuilder heap this of (b, heap') \<Rightarrow> m heap' b)"

definition whereEqualTo ::
  "'fs obj list \<Rightarrow> nat \<Rightarrow> IWherePropParam \<Rightarrow> jsval \<Rightarrow> (error + nat) \<times> 'fs obj list" where
  "whereEqualTo heap this p v =
     on_new_QueryBuilder heap this (\<lambda>h b. QueryBuilder_where Equal h b p v)"

definition whereGreaterThan ::
  "'fs obj list \<Rightarrow> nat \<Rightarrow> IWherePropParam \<Rightarrow> jsval \<Rightarrow> (error + nat) \<times> 'fs obj list" where
  "whereGreaterThan heap this p v =
     on_new_QueryBuilder heap this (\<lambda>h b. QueryBuilder_where GreaterThan h b p v)"

definition whereGreaterOrEqualThan ::
  "'fs obj list \<Rightarrow> nat \<Rightarrow> IWherePropParam \<Rightarrow> jsval \<Rightarrow> (error + nat) \<times> 'fs obj list" where
  "whereGreaterOrEqualThan heap this p v =
     on_new_QueryBuilder heap this (\<lambda>h b. QueryBuilder_where GreaterThanEqual h b p v)"

definition whereLessThan ::
  "'fs obj list \<Rightarrow> nat \<Rightarrow> IWherePropParam \<Rightarrow> jsval \<Rightarrow> (error + nat) \<times> 'fs obj list" where
  "whereLessThan heap this p v =
     on_new_QueryBuilder heap this (\<lambda>h b. QueryBuilder_where LessThan h b p v)"

definition whereLessOrEqualThan ::
  "'fs obj list \<Rightarrow> nat \<Rightarrow> IWherePropParam \<Rightarrow> jsval \<Rightarrow> (error + nat) \<times> 'fs obj list" where
  "whereLessOrEqualThan heap this p v =
     on_new_QueryBuilder heap this (\<lambda>h b. QueryBuilder_where LessThanEqual h b p v)"

definition whereArrayContains ::
  "'fs obj list \<Rightarrow> nat \<Rightarrow> IWherePropParam \<Rightarrow> jsval \<Rightarrow> (error + nat) \<times> 'fs obj list" where
  "whereArrayContains heap this p v =
     on_new_QueryBuilder heap this (\<lambda>h b. QueryBuilder_where ArrayContains h b p v)"

definition limit :: "'fs obj list \<Rightarrow> nat \<Rightarrow> int \<Rightarrow> (error + nat) \<times> 'fs obj list" where
  "limit heap this limitVal' =
     (if limitVal' < 0 then
        (Inl (Error None
           (''limitVal must be greater than 0. It received: '' @ string_of_int limitVal')), heap)
      else on_new_QueryBuilder heap this (\<lambda>h b. QueryBuilder_limit h b limitVal'))"

definition orderByAscending ::
  "'fs obj list \<Rightarrow> nat \<Rightarrow> IWherePropParam \<Rightarrow> (error + nat) \<times> 'fs obj list" where
  "orderByAscending heap this p =
     on_new_QueryBuilder heap this (\<lambda>h b. QueryBuilder_orderBy Ascending h b p)"

definition orderByDescending ::
  "'fs obj list \<Rightarrow> nat \<Rightarrow> IWherePropParam \<Rightarrow> (error + nat) \<times> 'fs obj list" where
  "orderByDescending heap this p =
     on_new_QueryBuilder heap this (\<lambda>h b. QueryBuilder_orderBy Descending h b p)"

definition find_all ::
  "('fs AbstractFirestoreRepository \<Rightarrow> IFireOrmQueryLine list \<Rightarrow> int option \<Rightarrow> IOrderByParams list \<Rightarrow>
     bool \<Rightarrow> 'r) \<Rightarrow> 'fs obj list \<Rightarrow> nat \<Rightarrow> error + 'r"
where
  "find_all execute heap this =
     (case new_QueryBuilder heap this of (b, heap') \<Rightarrow> QueryBuilder_find execute heap' b)"

text \<open>The nine clause-adding calls of a repository, with their arguments.\<close>

datatype clause_call =
    WhereEqualTo IWherePropParam jsval
  | WhereGreaterThan IWherePropParam jsval
  | WhereGreaterOrEqualThan IWherePropParam jsval
  | WhereLessThan IWherePropParam jsval
  | WhereLessOrEqualThan IWherePropParam jsval
  | WhereArrayContains IWherePropParam jsval
  | Limit int
  | OrderByAscending IWherePropParam
  | OrderByDescending IWherePropParam

fun clause_adding_call :: "'fs obj list \<Rightarrow> nat \<Rightarrow> clause_call \<Rightarrow> (error + nat) \<times> 'fs obj list" where
  "clause_adding_call heap this (WhereEqualTo p v) = whereEqualTo heap this p v"
| "clause_adding_call heap this (WhereGreaterThan p v) = whereGreaterThan heap this p v"
| "clause_adding_call heap this (WhereGreaterOrEqualThan p v) = whereGreaterOrEqualThan heap this p v"
| "clause_adding_call heap this (WhereLessThan p v) = whereLessThan heap this p v"
| "clause_adding_call heap this (WhereLessOrEqualThan p v) = whereLessOrEqualThan heap this p v"
| "clause_adding_call heap this (WhereArrayContains p v) = whereArrayContains heap this p v"
| "clause_adding_call heap this (Limit n) = limit heap this n"
| "clause_adding_call heap this (OrderByAscending p) = orderByAscending heap this p"
| "clause_adding_call heap this (OrderByDescending p) = orderByDescending heap this p"

section \<open>validate\<close>

text \<open>
  \<^verbatim>\<open>await import('class-validator')\<close> gives the module or throws; the module's
  \<^verbatim>\<open>validate(entity)\<close> throws, or returns a promise that is rejected or resolves to the
  list of violations. Both are parameters. The promise is returned without \<^verbatim>\<open>await\<close>,
  so its rejection does not pass through the \<^verbatim>\<open>catch\<close> block; a throw of the import or
  of the call does. \<^verbatim>\<open>new Entity()\<close> is an instance without properties (the entity
  classes declare fields only), and \<^verbatim>\<open>item instanceof Entity\<close> compares the classes.
\<close>

type_synonym 'v ClassValidator = "entity \<Rightarrow> error + (error + 'v list)"

definition class_validator_not_installed :: string where
  "class_validator_not_installed =
     ''It looks like class-validator is not installed. Please run '' @ [CHR 0x60] @
     ''npm i -S class-validator'' @ [CHR 0x60] @
     '' to fix this error, or initialize FireORM with '' @ [CHR 0x60] @
     ''validateModels: false'' @ [CHR 0x60] @ '' to disable validation.''"

text \<open>\<^verbatim>\<open>item instanceof Entity ? item : Object.assign(new Entity(), item)\<close>.\<close>

definition instantiate :: "IEntityConstructor \<Rightarrow> entity \<Rightarrow> entity" where
  "instantiate Entity item =
     (if entity_class item = Entity then item
      else \<lparr>entity_class = Entity, props = assign_all [] (props item)\<rparr>)"

definition validate ::
  "(error + 'v ClassValidator) \<Rightarrow> 'fs AbstractFirestoreRepository \<Rightarrow> entity \<Rightarrow> error + 'v list"
where
  "validate imported this item =
     (case
        (case imported of
           Inl err \<Rightarrow> Inl err
         | Inr classValidator \<Rightarrow>
             classValidator (instantiate (entityConstructor (colMetadata this)) item))
      of
        Inl err \<Rightarrow>
          (if error_code err = Some ''MODULE_NOT_FOUND''
           then Inl (Error None class_validator_not_installed)
           else Inl err)
      | Inr promise \<Rightarrow> promise)"

section \<open>Vocabulary of the properties\<close>

text \<open>
  How the walk classifies a field value: a datetime is a truthy object that answers to
  \<^verbatim>\<open>toDate\<close>; a value is named \<open>n\<close> when it is truthy, not a datetime, and
  \<^verbatim>\<open>constructor.name\<close> reads \<open>n\<close>.
\<close>

definition is_datetime :: "jsval \<Rightarrow> bool" where
  "is_datetime v = (truthy v \<and> typeof v = ''object'' \<and> has_property ''toDate'' v)"

definition is_named :: "string \<Rightarrow> jsval \<Rightarrow> bool" where
  "is_named n v = (truthy v \<and> \<not> is_datetime v \<and> constructor_name v = Inr (JStr n))"

definition is_composite :: "jsval \<Rightarrow> bool" where
  "is_composite v =
     (truthy v \<and> typeof v = ''object'' \<and> \<not> is_datetime v \<and> \<not> is_named ''GeoPoint'' v
      \<and> \<not> is_named ''DocumentReference'' v)"

text \<open>
  The rules of deserialization in the spec's words, as a relation of its own between the
  stored value \<open>v\<close> of a field and the value \<open>v'\<close> of the field afterwards:
  \<^verbatim>\<open>null\<close> and every value that is not an object (\<^verbatim>\<open>undefined\<close> among them) stay as
  they are; a datetime becomes what its \<^verbatim>\<open>toDate()\<close> returns; a geo-point becomes the
  plain pair of its coordinates and a reference the plain pair of its id and path; a
  native date stays as it is; a nested composite keeps its wrapper and its keys, and each
  of its fields follows the same rules. The relation leaves no choice: it relates a stored
  value to at most one value (lemma \<open>deserialized_pins\<close>).
\<close>

inductive deserialized :: "jsval \<Rightarrow> jsval \<Rightarrow> bool" where
  null: "deserialized JNull JNull"
| other: "typeof v \<noteq> ''object'' \<Longrightarrow> deserialized v v"
| datetime: "is_datetime v \<Longrightarrow> call (get_prop v ''toDate'') = Inr d \<Longrightarrow> deserialized v d"
| geo_point: "is_named ''GeoPoint'' v \<Longrightarrow>
    deserialized v
      (plain [(''latitude'', get_prop v ''latitude''), (''longitude'', get_prop v ''longitude'')])"
| reference: "is_named ''DocumentReference'' v \<Longrightarrow>
    deserialized v (plain [(''id'', get_prop v ''id''), (''path'', get_prop v ''path'')])"
| date: "deserialized (JDate t) (JDate t)"
| composite: "is_composite (JObj own inh) \<Longrightarrow>
    list_all2 (\<lambda>kv kv'. fst kv' = fst kv \<and> deserialized (snd kv) (snd kv')) own own' \<Longrightarrow>
    deserialized (JObj own inh) (JObj own' inh)"

code_pred deserialized .

text \<open>
  A document is store-shaped when, in every object the walk can reach, a \<^verbatim>\<open>toDate\<close>
  property is a method and \<^verbatim>\<open>constructor\<close> is a function, as for the store's own
  classes, plain objects and arrays.
\<close>

fun store_shaped :: "jsval \<Rightarrow> bool" where
  "store_shaped (JObj own inh) =
     ((has_property ''toDate'' (JObj own inh) \<longrightarrow>
         typeof (get_prop (JObj own inh) ''toDate'') = ''function'')
      \<and> typeof (get_prop (JObj own inh) ''constructor'') = ''function''
      \<and> list_all (\<lambda>kv. store_shaped (snd kv)) own)"
| "store_shaped v = True"

text \<open>
  The spec's words, for comparison: a value is geo-point-like by capability when it is an
  object that answers to \<^verbatim>\<open>latitude\<close> and \<^verbatim>\<open>longitude\<close>, whatever type wraps it.
\<close>

definition geo_point_like :: "jsval \<Rightarrow> bool" where
  "geo_point_like v =
     (truthy v \<and> typeof v = ''object'' \<and> has_property ''latitude'' v \<and> has_property ''longitude'' v)"

section \<open>Example data\<close>

text \<open>
  A \<^verbatim>\<open>Post\<close> collection at \<^verbatim>\<open>posts\<close> with the sub-collection \<^verbatim>\<open>comments\<close> under the
  property key \<^verbatim>\<open>comments\<close>, and documents of it. \<open>object_toString\<close> is the string
  conversion of an object that does not override \<^verbatim>\<open>toString\<close>.
\<close>

definition object_toString :: "field \<Rightarrow> string" where
  "object_toString f = ''[object Object]''"

definition posts_metadata :: FullCollectionMetadata where
  "posts_metadata =
     \<lparr>name = ''posts'', entityConstructor = Class ''Post'',
      subCollections =
        [\<lparr>name = ''comments'', entityConstructor = Class ''Comment'',
          parentEntityConstructor = Class ''Post'', propertyKey = ''comments''\<rparr>]\<rparr>"

definition posts_repository :: "unit AbstractFirestoreRepository" where
  "posts_repository =
     \<lparr>colMetadata = posts_metadata, path = ''posts'',
      repo_config = \<lparr>validateModels = True\<rparr>, firestoreColRef = CollectionRef () ''posts''\<rparr>"

definition post_snapshot :: DocumentSnapshot where
  "post_snapshot =
     \<lparr>doc_exists = True, doc_id = ''p1'', doc_data = plain [(''title'', JStr ''Hello'')]\<rparr>"

definition post_snapshot_with_id :: DocumentSnapshot where
  "post_snapshot_with_id =
     \<lparr>doc_exists = True, doc_id = ''p1'',
      doc_data = plain [(''title'', JStr ''Hello''), (''id'', JStr ''other'')]\<rparr>"

definition missing_snapshot :: DocumentSnapshot where
  "missing_snapshot = \<lparr>doc_exists = False, doc_id = ''missing'', doc_data = JUndefined\<rparr>"

definition comments_metadata :: SubCollectionMetadata where
  "comments_metadata =
     \<lparr>name = ''comments'', entityConstructor = Class ''Comment'',
      parentEntityConstructor = Class ''Post'', propertyKey = ''comments''\<rparr>"

definition hydrated_post :: "repository \<Rightarrow> entity" where
  "hydrated_post r =
     \<lparr>entity_class = Class ''Post'',
      props = [(''id'', Val (JStr ''p1'')), (''title'', Val (JStr ''Hello'')),
               (''comments'', Repo r)]\<rparr>"

text \<open>The same collection with its sub-collection exposed under the property key \<^verbatim>\<open>id\<close>.\<close>

definition id_keyed_repository :: "unit AbstractFirestoreRepository" where
  "id_keyed_repository =
     \<lparr>colMetadata =
        \<lparr>name = ''posts'', entityConstructor = Class ''Post'',
         subCollections =
           [\<lparr>name = ''comments'', entityConstructor = Class ''Comment'',
             parentEntityConstructor = Class ''Post'', propertyKey = ''id''\<rparr>]\<rparr>,
      path = ''posts'', repo_config = \<lparr>validateModels = True\<rparr>,
      firestoreColRef = CollectionRef () ''posts''\<rparr>"

text \<open>
  Values as the store hands them out: a timestamp (its \<^verbatim>\<open>toDate\<close> is a method of the
  class), a geo-point and a document reference (their coordinates, id and path are
  accessors of the class), and a geo-point of another wrapper class, \<^verbatim>\<open>LatLng\<close>. A
  stored post holds one of each kind of field; \<open>deserialized_post\<close> is what the walk
  leaves of it.
\<close>

definition timestamp :: jsval where
  "timestamp =
     JObj [(''_seconds'', JNum 10), (''_nanoseconds'', JNum 0)]
          [(''constructor'', JFun ''Timestamp'' JUndefined), (''toDate'', JFun ''toDate'' (JDate 10000))]"

definition geo_point :: jsval where
  "geo_point =
     JObj [(''_latitude'', JNum 52), (''_longitude'', JNum 4)]
          [(''constructor'', JFun ''GeoPoint'' JUndefined),
           (''latitude'', JNum 52), (''longitude'', JNum 4)]"

definition document_reference :: jsval where
  "document_reference =
     JObj [(''_path'', JStr ''users/u1'')]
          [(''constructor'', JFun ''DocumentReference'' JUndefined),
           (''id'', JStr ''u1''), (''path'', JStr ''users/u1'')]"

definition lat_lng :: jsval where
  "lat_lng =
     JObj [(''_lat'', JNum 52), (''_long'', JNum 4)]
          [(''constructor'', JFun ''LatLng'' JUndefined),
           (''latitude'', JNum 52), (''longitude'', JNum 4)]"




text \<open>A heap that holds the repository of the posts and nothing else.\<close>

definition posts_heap :: "unit obj list" where
  "posts_heap = [RepositoryObj posts_repository]"

text \<open>
  Outcomes of the import of the validation module: the module is not installed; the
  module is there and reports one violation for every entity.
\<close>

definition module_not_found :: "error + string ClassValidator" where
  "module_not_found = Inl (Error (Some ''MODULE_NOT_FOUND'') ''Cannot find module'')"

definition one_violation :: "error + string ClassValidator" where
  "one_violation = Inr (\<lambda>e. Inr (Inr [''title must be longer'']))"

text \<open>
  A registry before the store connection is established, and one after it that knows the
  \<^verbatim>\<open>Post\<close> class and, for access by path, the path \<^verbatim>\<open>archive/posts\<close>.
\<close>

definition uninitialized_storage :: "unit MetadataStorage" where
  "uninitialized_storage =
     \<lparr>getCollection = (\<lambda>k. Inr None), config = \<lparr>validateModels = True\<rparr>, firestoreRef = None\<rparr>"

definition posts_storage :: "unit MetadataStorage" where
  "posts_storage =
     \<lparr>getCollection =
        (\<lambda>k. if k = Inr (Class ''Post'') \<or> k = Inl ''archive/posts''
             then Inr (Some posts_metadata) else Inr None),
      config = \<lparr>validateModels = True\<rparr>, firestoreRef = Some ()\<rparr>"

section \<open>Lemmas on the walk and on assignment\<close>

lemma forEachKey_keys: "forEachKey own = Inr own' \<Longrightarrow> map fst own' = map fst own"
  by (induction own arbitrary: own') (auto split: sum.splits)

lemma transformFirestoreTypes_keys:
  "transformFirestoreTypes v = Inr t \<Longrightarrow> map fst (own_enumerable t) = map fst (own_enumerable v)"
  by (cases v) (auto split: sum.splits dest: forEachKey_keys)

lemma map_of_assign: "map_of (assign k v ps) = (map_of ps)(k \<mapsto> v)"
  by (induction ps) auto

lemma map_of_assign_all_other:
  "k \<notin> fst ` set ps \<Longrightarrow> map_of (assign_all base ps) k = map_of base k"
  unfolding assign_all_def
  by (induction ps arbitrary: base) (auto simp: map_of_assign)

lemma assign_append_new:
  "k \<notin> fst ` set pre \<Longrightarrow> assign k v' (pre @ (k, v) # rest) = pre @ (k, v') # rest"
  by (induction pre) auto

lemma own_value_append_new:
  "k \<notin> fst ` set pre \<Longrightarrow> own_value (pre @ (k, v) # rest) k = v"
  by (induction pre) (auto simp: own_value_def)

lemma forEach_in_place_append:
  "distinct (map fst (pre @ own)) \<Longrightarrow>
   forEach_in_place transformKey (map fst own) (pre @ own) =
     (case forEachKey own of Inl e \<Rightarrow> Inl e | Inr own' \<Rightarrow> Inr (pre @ own'))"
proof (induction own arbitrary: pre)
  case Nil
  then show ?case by simp
next
  case (Cons kv rest)
  obtain k v where kv: "kv = (k, v)" by (cases kv)
  from Cons.prems kv have k: "k \<notin> fst ` set pre" by auto
  show ?case
  proof (cases "transformKey v")
    case (Inl e)
    then show ?thesis using k by (simp add: kv own_value_append_new)
  next
    case (Inr v')
    from Cons.prems kv have "distinct (map fst ((pre @ [(k, v')]) @ rest))" by auto
    from Cons.IH[OF this] Inr k show ?thesis
      by (simp add: kv own_value_append_new assign_append_new split: sum.splits)
  qed
qed

lemma forEachKey_in_place:
  "distinct (map fst own) \<Longrightarrow> forEach_in_place transformKey (map fst own) own = forEachKey own"
  using forEach_in_place_append[of "[]" own] by (simp split: sum.splits)

lemma read_field_plainToClass:
  "read_field (plainToClass cls ps) k =
     (case map_of ps k of Some v \<Rightarrow> Val v | None \<Rightarrow> Val JUndefined)"
  by (induction ps) (auto simp: read_field_def plainToClass_def)

lemma read_field_initializeSubCollection:
  "read_field (initializeSubCollection toString this tran e sc) k =
     (if k = propertyKey sc then
        Repo (case tran of
                Some t \<Rightarrow> FirestoreTransaction_getRepository t
                  (path this @ ''/'' @ template toString (read_field e ''id'') @ ''/'' @ name sc)
              | None \<Rightarrow> getRepository
                  (path this @ ''/'' @ template toString (read_field e ''id'') @ ''/'' @ name sc))
      else read_field e k)"
  by (simp add: read_field_def initializeSubCollection_def Let_def map_of_assign
      split: option.splits)

lemma read_field_foldl_other:
  "k \<notin> propertyKey ` set scs \<Longrightarrow>
   read_field (foldl (initializeSubCollection toString this tran) e scs) k = read_field e k"
  by (induction scs arbitrary: e) (auto simp: read_field_initializeSubCollection)

lemma read_field_foldl_attached:
  "distinct (map propertyKey scs) \<Longrightarrow> ''id'' \<notin> propertyKey ` set scs \<Longrightarrow> sc \<in> set scs \<Longrightarrow>
   read_field (foldl (initializeSubCollection toString this tran) e scs) (propertyKey sc) =
     Repo (case tran of
             Some t \<Rightarrow> FirestoreTransaction_getRepository t
               (path this @ ''/'' @ template toString (read_field e ''id'') @ ''/'' @ name sc)
           | None \<Rightarrow> getRepository
               (path this @ ''/'' @ template toString (read_field e ''id'') @ ''/'' @ name sc))"
proof (induction scs arbitrary: e)
  case Nil
  then show ?case by simp
next
  case (Cons a scs)
  show ?case
  proof (cases "sc = a")
    case True
    with Cons.prems have "propertyKey a \<notin> propertyKey ` set scs" by auto
    then show ?thesis unfolding True
      by (simp add: read_field_foldl_other read_field_initializeSubCollection)
  next
    case False
    with Cons.prems have in_rest: "sc \<in> set scs" by simp
    from Cons.prems have "propertyKey a \<noteq> ''id''" by auto
    then have "read_field (initializeSubCollection toString this tran e a) ''id'' = read_field e ''id''"
      by (simp add: read_field_initializeSubCollection)
    moreover from Cons.prems have "distinct (map propertyKey scs)" "''id'' \<notin> propertyKey ` set scs"
      by auto
    ultimately show ?thesis
      using Cons.IH[OF _ _ in_rest, of "initializeSubCollection toString this tran e a"]
      by (cases tran) simp_all
  qed
qed

lemmas hydration_defs =
  extractTFromDocSnap_def plain_def posts_repository_def posts_metadata_def constructor_name_def
  plainToClass_def assign_all_def initializeSubCollections_def initializeSubCollection_def
  read_field_def template_def getRepository_def FirestoreTransaction_getRepository_def
  transformKey.simps

section \<open>Hydration: the identifier and the absent document\<close>

text \<open>
  C1, as stated, fails: the object literal writes \<^verbatim>\<open>id: doc.id\<close> first and spreads the
  stored data over it, so a stored field named \<^verbatim>\<open>id\<close> replaces the document identifier
  (and the sub-collection paths are built from the replaced value). The document
  \<^verbatim>\<open>p1\<close> below stores \<^verbatim>\<open>id: 'other'\<close> and is hydrated with \<^verbatim>\<open>id\<close> \<^verbatim>\<open>'other'\<close>.
\<close>

theorem id_from_stored_field_counterexample:
  "extractTFromDocSnap object_toString posts_repository post_snapshot_with_id None =
     Inr (Some \<lparr>entity_class = Class ''Post'',
                props = [(''id'', Val (JStr ''other'')), (''title'', Val (JStr ''Hello'')),
                         (''comments'', Repo (StandaloneRepository ''posts/other/comments''))]\<rparr>)
   \<and> doc_id post_snapshot_with_id = ''p1''"
  by (simp add: hydration_defs post_snapshot_with_id_def)

text \<open>
  C1, amended: for every document that is hydrated into an entity, when the stored data
  has no own field named \<^verbatim>\<open>id\<close> and no sub-collection is exposed under the property key
  \<^verbatim>\<open>id\<close>, the entity's \<^verbatim>\<open>id\<close> is the document identifier \<^verbatim>\<open>doc.id\<close>.
\<close>

theorem id_is_document_id:
  assumes "extractTFromDocSnap toString this doc tran = Inr (Some e)"
    and "''id'' \<notin> fst ` set (own_enumerable (doc_data doc))"
    and "''id'' \<notin> propertyKey ` set (subCollections (colMetadata this))"
  shows "read_field e ''id'' = Val (JStr (doc_id doc))"
proof -
  from assms(1) obtain t where t: "transformFirestoreTypes (doc_data doc) = Inr t"
    and e: "e = initializeSubCollections toString this
                  (plainToClass (entityConstructor (colMetadata this))
                     (assign_all [(''id'', JStr (doc_id doc))] (own_enumerable t))) tran"
    by (auto simp: extractTFromDocSnap_def Let_def split: if_splits sum.splits)
  from transformFirestoreTypes_keys[OF t]
  have "set (map fst (own_enumerable t)) = set (map fst (own_enumerable (doc_data doc)))"
    by simp
  with assms(2) have "''id'' \<notin> fst ` set (own_enumerable t)" by simp
  then have "map_of (assign_all [(''id'', JStr (doc_id doc))] (own_enumerable t)) ''id'' =
      Some (JStr (doc_id doc))"
    by (simp add: map_of_assign_all_other)
  then show ?thesis
    unfolding e initializeSubCollections_def
    by (simp add: read_field_foldl_other[OF assms(3)] read_field_plainToClass)
qed

theorem id_is_document_id_witness:
  "extractTFromDocSnap object_toString posts_repository post_snapshot (Some 7) =
     Inr (Some \<lparr>entity_class = Class ''Post'',
                props = [(''id'', Val (JStr ''p1'')), (''title'', Val (JStr ''Hello'')),
                         (''comments'', Repo (TransactionRepository 7 ''posts/p1/comments''))]\<rparr>)
   \<and> ''id'' \<notin> fst ` set (own_enumerable (doc_data post_snapshot))
   \<and> ''id'' \<notin> propertyKey ` set (subCollections (colMetadata posts_repository))
   \<and> read_field \<lparr>entity_class = Class ''Post'',
                props = [(''id'', Val (JStr ''p1'')), (''title'', Val (JStr ''Hello'')),
                         (''comments'', Repo (TransactionRepository 7 ''posts/p1/comments''))]\<rparr> ''id''
       = Val (JStr (doc_id post_snapshot))"
proof -
  have h1: "extractTFromDocSnap object_toString posts_repository post_snapshot (Some 7) =
     Inr (Some \<lparr>entity_class = Class ''Post'',
                props = [(''id'', Val (JStr ''p1'')), (''title'', Val (JStr ''Hello'')),
                         (''comments'', Repo (TransactionRepository 7 ''posts/p1/comments''))]\<rparr>)"
    by (simp add: hydration_defs post_snapshot_def)
  have h2: "''id'' \<notin> fst ` set (own_enumerable (doc_data post_snapshot))"
    by (simp add: post_snapshot_def plain_def)
  have h3: "''id'' \<notin> propertyKey ` set (subCollections (colMetadata posts_repository))"
    by (simp add: posts_repository_def posts_metadata_def)
  from id_is_document_id[OF h1 h2 h3] h1 h2 h3 show ?thesis by blast
qed

text \<open>
  The second condition of the amended C1 is needed as well: a sub-collection under the
  property key \<^verbatim>\<open>id\<close> puts its repository in the place of the identifier.
\<close>

lemma sub_collection_key_id_overwrites:
  "extractTFromDocSnap object_toString id_keyed_repository post_snapshot None =
     Inr (Some \<lparr>entity_class = Class ''Post'',
                props = [(''id'', Repo (StandaloneRepository ''posts/p1/comments'')),
                         (''title'', Val (JStr ''Hello''))]\<rparr>)"
  by (simp add: hydration_defs post_snapshot_def id_keyed_repository_def)

text \<open>
  C5: hydrating the snapshot of a document that does not exist returns \<^verbatim>\<open>null\<close> and
  raises nothing, whatever the repository, the transaction and the snapshot's other
  parts are.
\<close>

theorem absent_document_is_null:
  "\<not> doc_exists doc \<Longrightarrow> extractTFromDocSnap toString this doc tran = Inr None"
  by (simp add: extractTFromDocSnap_def)

theorem absent_document_is_null_witness:
  "\<not> doc_exists missing_snapshot
   \<and> extractTFromDocSnap object_toString posts_repository missing_snapshot None = Inr None"
proof -
  have h: "\<not> doc_exists missing_snapshot" by (simp add: missing_snapshot_def)
  from absent_document_is_null[OF h] h show ?thesis by blast
qed

section \<open>Hydration: the sub-collections\<close>

lemma initializeSubCollections_attached:
  assumes "distinct (map propertyKey (subCollections (colMetadata this)))"
    and "''id'' \<notin> propertyKey ` set (subCollections (colMetadata this))"
    and "subCol \<in> set (subCollections (colMetadata this))"
    and "e' = initializeSubCollections toString this e tran"
  shows "read_field e' (propertyKey subCol) =
     Repo (case tran of
             Some t \<Rightarrow> TransactionRepository t
               (path this @ ''/'' @ template toString (read_field e' ''id'') @ ''/'' @ name subCol)
           | None \<Rightarrow> StandaloneRepository
               (path this @ ''/'' @ template toString (read_field e' ''id'') @ ''/'' @ name subCol))"
proof -
  have "read_field e' ''id'' = read_field e ''id''"
    unfolding assms(4) initializeSubCollections_def
    by (rule read_field_foldl_other[OF assms(2)])
  then show ?thesis
    using read_field_foldl_attached[OF assms(1) assms(2) assms(3), of toString "this" tran e]
    unfolding assms(4) initializeSubCollections_def
    by (cases tran) (simp_all add: getRepository_def FirestoreTransaction_getRepository_def)
qed

text \<open>
  C7: after a parent entity is hydrated, every sub-collection descriptor of its collection
  has, on the parent's field named by its \<^verbatim>\<open>propertyKey\<close>, a repository bound to the path
  \<^verbatim>\<open><parent path>/<parent id>/<sub-collection name>\<close>: one scoped to the transaction
  the hydration ran in, or a standalone one when it ran in none. The property keys of
  the descriptors are taken distinct and different from \<^verbatim>\<open>id\<close>, as the data model asks of
  the caller (a later descriptor with the same key would overwrite the field).
\<close>

theorem hydrated_sub_collections:
  assumes "extractTFromDocSnap toString this doc tran = Inr (Some e')"
    and "distinct (map propertyKey (subCollections (colMetadata this)))"
    and "''id'' \<notin> propertyKey ` set (subCollections (colMetadata this))"
    and "subCol \<in> set (subCollections (colMetadata this))"
  shows "read_field e' (propertyKey subCol) =
     Repo (case tran of
             Some t \<Rightarrow> TransactionRepository t
               (path this @ ''/'' @ template toString (read_field e' ''id'') @ ''/'' @ name subCol)
           | None \<Rightarrow> StandaloneRepository
               (path this @ ''/'' @ template toString (read_field e' ''id'') @ ''/'' @ name subCol))"
proof -
  from assms(1) obtain e where "e' = initializeSubCollections toString this e tran"
    by (auto simp: extractTFromDocSnap_def Let_def split: if_splits sum.splits)
  with assms(2,3,4) show ?thesis by (rule initializeSubCollections_attached)
qed

theorem hydrated_sub_collections_witness:
  "extractTFromDocSnap object_toString posts_repository post_snapshot (Some 7) =
     Inr (Some (hydrated_post (TransactionRepository 7 ''posts/p1/comments'')))
   \<and> read_field (hydrated_post (TransactionRepository 7 ''posts/p1/comments'')) ''comments'' =
       Repo (TransactionRepository 7 ''posts/p1/comments'')
   \<and> extractTFromDocSnap object_toString posts_repository post_snapshot None =
       Inr (Some (hydrated_post (StandaloneRepository ''posts/p1/comments'')))
   \<and> read_field (hydrated_post (StandaloneRepository ''posts/p1/comments'')) ''comments'' =
       Repo (StandaloneRepository ''posts/p1/comments'')
   \<and> distinct (map propertyKey (subCollections (colMetadata posts_repository)))
   \<and> ''id'' \<notin> propertyKey ` set (subCollections (colMetadata posts_repository))
   \<and> comments_metadata \<in> set (subCollections (colMetadata posts_repository))"
proof -
  have h1: "extractTFromDocSnap object_toString posts_repository post_snapshot (Some 7) =
      Inr (Some (hydrated_post (TransactionRepository 7 ''posts/p1/comments'')))"
    by (simp add: hydration_defs post_snapshot_def hydrated_post_def)
  have h1': "extractTFromDocSnap object_toString posts_repository post_snapshot None =
      Inr (Some (hydrated_post (StandaloneRepository ''posts/p1/comments'')))"
    by (simp add: hydration_defs post_snapshot_def hydrated_post_def)
  have h2: "distinct (map propertyKey (subCollections (colMetadata posts_repository)))"
    by (simp add: posts_repository_def posts_metadata_def)
  have h3: "''id'' \<notin> propertyKey ` set (subCollections (colMetadata posts_repository))"
    by (simp add: posts_repository_def posts_metadata_def)
  have h4: "comments_metadata \<in> set (subCollections (colMetadata posts_repository))"
    by (simp add: posts_repository_def posts_metadata_def comments_metadata_def)
  have k: "propertyKey comments_metadata = ''comments''" "name comments_metadata = ''comments''"
    "path posts_repository = ''posts''"
    by (simp_all add: comments_metadata_def posts_repository_def)
  have i: "\<And>r. template object_toString (read_field (hydrated_post r) ''id'') = ''p1''"
    by (simp add: read_field_def template_def hydrated_post_def)
  from hydrated_sub_collections[OF h1 h2 h3 h4] hydrated_sub_collections[OF h1' h2 h3 h4]
  show ?thesis using h1 h1' h2 h3 h4 by (simp add: k i)
qed

section \<open>Construction of a repository\<close>

text \<open>
  C6: the constructor fails with the error \<^verbatim>\<open>Firestore must be initialized first\<close> when
  the store connection has not been established; with the store established, it fails with
  the error \<^verbatim>\<open>There is no metadata stored for "<key>"\<close> when the registry has no
  descriptor for the path or entity class; otherwise the repository holds the descriptor
  and its path is the literal path when a string was given, else the descriptor's
  \<^verbatim>\<open>name\<close>. The two errors differ.
\<close>

theorem construction_outcomes:
  "(firestoreRef storage = None \<longrightarrow>
      new_AbstractFirestoreRepository storage pathOrConstructor =
        Inl (Error None ''Firestore must be initialized first''))
   \<and> (firestoreRef storage \<noteq> None \<and> getCollection storage pathOrConstructor = Inr None \<longrightarrow>
      new_AbstractFirestoreRepository storage pathOrConstructor =
        Inl (Error None (''There is no metadata stored for '' @ [CHR 0x22] @
               pathOrConstructor_label pathOrConstructor @ [CHR 0x22])))
   \<and> (firestoreRef storage = Some fs \<and> getCollection storage pathOrConstructor = Inr (Some md) \<longrightarrow>
      new_AbstractFirestoreRepository storage pathOrConstructor =
        Inr \<lparr>colMetadata = md,
             path = (case pathOrConstructor of Inl s \<Rightarrow> s | Inr c \<Rightarrow> name md),
             repo_config = config storage,
             firestoreColRef =
               CollectionRef fs (case pathOrConstructor of Inl s \<Rightarrow> s | Inr c \<Rightarrow> name md)\<rparr>)
   \<and> Error None ''Firestore must be initialized first'' \<noteq>
       Error None (''There is no metadata stored for '' @ [CHR 0x22] @
               pathOrConstructor_label pathOrConstructor @ [CHR 0x22])"
  by (auto simp: new_AbstractFirestoreRepository_def Let_def split: option.splits sum.splits)

theorem construction_outcomes_witness:
  "new_AbstractFirestoreRepository uninitialized_storage (Inl ''posts'') =
     Inl (Error None ''Firestore must be initialized first'')
   \<and> new_AbstractFirestoreRepository posts_storage (Inr (Class ''User'')) =
     Inl (Error None (''There is no metadata stored for '' @ [CHR 0x22] @ ''User'' @ [CHR 0x22]))
   \<and> new_AbstractFirestoreRepository posts_storage (Inr (Class ''Post'')) = Inr posts_repository
   \<and> new_AbstractFirestoreRepository posts_storage (Inl ''archive/posts'') =
       Inr \<lparr>colMetadata = posts_metadata, path = ''archive/posts'',
            repo_config = \<lparr>validateModels = True\<rparr>,
            firestoreColRef = CollectionRef () ''archive/posts''\<rparr>"
  using construction_outcomes[of uninitialized_storage "Inl ''posts''" "()" posts_metadata]
    construction_outcomes[of posts_storage "Inr (Class ''User'')" "()" posts_metadata]
    construction_outcomes[of posts_storage "Inr (Class ''Post'')" "()" posts_metadata]
    construction_outcomes[of posts_storage "Inl ''archive/posts''" "()" posts_metadata]
  by (simp add: uninitialized_storage_def posts_storage_def posts_metadata_def posts_repository_def
      pathOrConstructor_label_def)

text \<open>
  C10: when the store connection has not been established, the constructor fails with the
  uninitialized-store error whatever the registry's lookup would do with the key: the
  outcome is the same for every lookup, one that raises on every key included, so the
  lookup is not consulted.
\<close>

theorem uninitialized_store_precedes_lookup:
  "firestoreRef storage = None \<Longrightarrow>
   new_AbstractFirestoreRepository (storage\<lparr>getCollection := lookup\<rparr>) pathOrConstructor =
     Inl (Error None ''Firestore must be initialized first'')"
  by (simp add: new_AbstractFirestoreRepository_def)

theorem uninitialized_store_precedes_lookup_witness:
  "firestoreRef uninitialized_storage = None
   \<and> new_AbstractFirestoreRepository (uninitialized_storage\<lparr>getCollection := (\<lambda>k. Inl TypeError)\<rparr>)
        (Inr (Class ''Unregistered'')) = Inl (Error None ''Firestore must be initialized first'')"
proof -
  have h: "firestoreRef uninitialized_storage = None" by (simp add: uninitialized_storage_def)
  from uninitialized_store_precedes_lookup[OF h] h show ?thesis by blast
qed

section \<open>The walk over a document\<close>

lemma forEachKey_Inr_iff:
  "forEachKey own = Inr own' \<longleftrightarrow>
     list_all2 (\<lambda>kv kv'. fst kv' = fst kv \<and> transformKey (snd kv) = Inr (snd kv')) own own'"
proof (induction own arbitrary: own')
  case Nil
  then show ?case by auto
next
  case (Cons kv rest)
  show ?case
  proof (cases own')
    case Nil
    then show ?thesis by (auto split: sum.splits)
  next
    case (Cons kv' rest')
    then show ?thesis using Cons.IH[of rest']
      by (cases kv') (auto split: sum.splits)
  qed
qed

lemma constructor_name_not_object:
  "truthy v \<Longrightarrow> typeof v \<noteq> ''object'' \<Longrightarrow>
   \<exists>n. constructor_name v = Inr (JStr n) \<and> n \<noteq> ''GeoPoint'' \<and> n \<noteq> ''DocumentReference''"
  by (cases v) (auto simp: constructor_name_def)


lemma transformFirestoreTypes_JObj:
  "transformFirestoreTypes (JObj own inh) = Inr v' \<Longrightarrow>
   \<exists>own'. v' = JObj own' inh \<and> map fst own' = map fst own"
  by (auto split: sum.splits dest: forEachKey_keys)

text \<open>On a store-shaped document no step of the walk throws.\<close>

lemma call_function: "typeof f = ''function'' \<Longrightarrow> \<exists>r. call f = Inr r"
  by (cases f) auto

lemma name_of_function: "typeof f = ''function'' \<Longrightarrow> \<exists>n. name_of f = Inr (JStr n)"
  by (cases f) auto

lemma constructor_name_store_shaped:
  "store_shaped v \<Longrightarrow> truthy v \<Longrightarrow> \<exists>n. constructor_name v = Inr (JStr n)"
  by (cases v) (auto simp: constructor_name_def dest: name_of_function)

lemma walk_returns:
  "store_shaped v \<longrightarrow> v \<noteq> JUndefined \<longrightarrow> v \<noteq> JNull \<longrightarrow> (\<exists>r. transformFirestoreTypes v = Inr r)"
  "list_all (\<lambda>kv. store_shaped (snd kv)) own \<longrightarrow> (\<exists>r. forEachKey own = Inr r)"
  "store_shaped w \<longrightarrow> (\<exists>r. transformKey w = Inr r)"
proof (induction v and own and w rule: transformFirestoreTypes_forEachKey_transformKey.induct)
  case (1 own inh)
  then show ?case by auto
next
  case (7 w)
  show ?case
  proof
    assume s: "store_shaped w"
    show "\<exists>r. transformKey w = Inr r"
    proof (cases "truthy w")
      case False
      then show ?thesis by (simp add: transformKey.simps)
    next
      case True
      show ?thesis
      proof (cases "typeof w = ''object'' \<and> has_property ''toDate'' w")
        case dt: True
        then obtain own inh where w: "w = JObj own inh" by (cases w) auto
        with s dt have "typeof (get_prop w ''toDate'') = ''function''"
          by (simp del: has_property.simps get_prop.simps)
        from call_function[OF this] show ?thesis using True dt by (simp add: transformKey.simps)
      next
        case nd: False
        from constructor_name_store_shaped[OF s True]
        obtain n where n: "constructor_name w = Inr (JStr n)" ..
        show ?thesis
        proof (cases "typeof w = ''object'' \<and> n \<noteq> ''GeoPoint'' \<and> n \<noteq> ''DocumentReference''")
          case True
          with \<open>truthy w\<close> have "w \<noteq> JUndefined" "w \<noteq> JNull" by auto
          moreover have "store_shaped w \<longrightarrow> w \<noteq> JUndefined \<longrightarrow> w \<noteq> JNull \<longrightarrow>
              (\<exists>r. transformFirestoreTypes w = Inr r)"
            using "7.IH"[of "JStr n"] True nd \<open>truthy w\<close> n by auto
          ultimately obtain r where "transformFirestoreTypes w = Inr r" using s by auto
          then show ?thesis using True nd \<open>truthy w\<close> n by (auto simp: transformKey.simps)
        next
          case False
          then show ?thesis using nd \<open>truthy w\<close> n by (auto simp: transformKey.simps)
        qed
      qed
    qed
  qed
qed auto

lemma hydration_returns:
  assumes "doc_exists doc" and "doc_data doc = JObj own inh" and "store_shaped (JObj own inh)"
  shows "\<exists>e. extractTFromDocSnap toString this doc tran = Inr (Some e)"
proof -
  from walk_returns(1)[of "JObj own inh"] assms(3)
  obtain r where "transformFirestoreTypes (JObj own inh) = Inr r" by auto
  then show ?thesis using assms(1,2)
    by (simp add: extractTFromDocSnap_def Let_def del: transformFirestoreTypes.simps)
qed




text \<open>The rules relate a stored value to at most one value.\<close>

lemma not_named_unless_object:
  "typeof v \<noteq> ''object'' \<Longrightarrow> \<not> is_named ''GeoPoint'' v \<and> \<not> is_named ''DocumentReference'' v"
  using constructor_name_not_object[of v] by (auto simp: is_named_def)

lemma list_all2_pinned:
  "list_all2 (\<lambda>kv kv'. fst kv' = fst kv \<and> deserialized (snd kv) (snd kv') \<and>
       (\<forall>b. deserialized (snd kv) b \<longrightarrow> snd kv' = b)) own own' \<Longrightarrow>
   list_all2 (\<lambda>kv kv'. fst kv' = fst kv \<and> deserialized (snd kv) (snd kv')) own own'' \<Longrightarrow>
   own' = own''"
proof (induction own own' arbitrary: own'' rule: list_all2_induct)
  case Nil
  then show ?case by simp
next
  case (Cons x xs y ys)
  from Cons.prems obtain z zs where z: "own'' = z # zs"
    and h: "fst z = fst x" "deserialized (snd x) (snd z)"
    and t: "list_all2 (\<lambda>kv kv'. fst kv' = fst kv \<and> deserialized (snd kv) (snd kv')) xs zs"
    by (auto simp: list_all2_Cons1)
  from Cons.hyps(1) h have "y = z" by (auto simp: prod_eq_iff)
  with Cons.IH[OF t] z show ?case by simp
qed

lemma deserialized_pins: "deserialized v a \<Longrightarrow> deserialized v b \<Longrightarrow> a = b"
proof (induction arbitrary: b rule: deserialized.induct)
  case null
  then show ?case
    by (cases rule: deserialized.cases) (auto simp: is_datetime_def is_named_def)
next
  case (other v)
  from other(2) show ?case
    using other(1) not_named_unless_object[of v]
    by (cases rule: deserialized.cases) (auto simp: is_datetime_def)
next
  case (datetime v d)
  from datetime(3) show ?case
    using datetime(1,2)
    by (cases rule: deserialized.cases) (auto simp: is_datetime_def is_named_def is_composite_def)
next
  case (geo_point v)
  from geo_point(2) show ?case
    using geo_point(1) not_named_unless_object[of v]
    by (cases rule: deserialized.cases)
      (auto simp: is_named_def is_composite_def constructor_name_def)
next
  case (reference v)
  from reference(2) show ?case
    using reference(1) not_named_unless_object[of v]
    by (cases rule: deserialized.cases)
      (auto simp: is_named_def is_composite_def constructor_name_def)
next
  case (date t)
  then show ?case
    by (cases rule: deserialized.cases) (auto simp: is_datetime_def is_named_def constructor_name_def)
next
  case (composite own inh own')
  from composite(3) show ?case
  proof (cases rule: deserialized.cases)
    case (composite own'')
    with list_all2_pinned[OF composite.IH] show ?thesis by simp
  qed (use composite(1) in \<open>auto simp: is_composite_def\<close>)
qed




text \<open>
  C2, as stated, fails: a geo-point is recognized by the name of its constructor, not by
  what it answers to. The value \<open>lat_lng\<close> answers to \<^verbatim>\<open>latitude\<close> and \<^verbatim>\<open>longitude\<close>
  under the wrapper class \<^verbatim>\<open>LatLng\<close>; the walk leaves it as it is, not as the plain
  \<^verbatim>\<open>{latitude, longitude}\<close>.
\<close>

theorem geo_point_by_capability_counterexample:
  "geo_point_like lat_lng
   \<and> transformFirestoreTypes (plain [(''location'', lat_lng)]) = Inr (plain [(''location'', lat_lng)])
   \<and> lat_lng \<noteq> plain [(''latitude'', JNum 52), (''longitude'', JNum 4)]"
  by (simp add: geo_point_like_def lat_lng_def plain_def transformKey.simps constructor_name_def)

text \<open>
  C2, amended: for every object field value, a datetime is detected by capability: a value
  that has a \<^verbatim>\<open>toDate\<close> property is replaced by what its \<^verbatim>\<open>toDate()\<close> returns, whatever
  its constructor is. A geo-point and a document reference are detected by the name of the
  constructor: a value without \<^verbatim>\<open>toDate\<close> is replaced by the plain
  \<^verbatim>\<open>{latitude, longitude}\<close> when its \<^verbatim>\<open>constructor.name\<close> is \<^verbatim>\<open>GeoPoint\<close>, and by the plain
  \<^verbatim>\<open>{id, path}\<close> when it is \<^verbatim>\<open>DocumentReference\<close>, whatever properties it has; a value
  of any other constructor name is not converted but walked in place as a nested
  composite, keeping its wrapper and its keys.
\<close>

theorem detection_by_capability_and_name:
  "(has_property ''toDate'' (JObj own inh) \<longrightarrow>
      transformKey (JObj own inh) = call (get_prop (JObj own inh) ''toDate''))
   \<and> (\<not> has_property ''toDate'' (JObj own inh)
        \<and> constructor_name (JObj own inh) = Inr (JStr ''GeoPoint'') \<longrightarrow>
      transformKey (JObj own inh) =
        Inr (plain [(''latitude'', get_prop (JObj own inh) ''latitude''),
                    (''longitude'', get_prop (JObj own inh) ''longitude'')]))
   \<and> (\<not> has_property ''toDate'' (JObj own inh)
        \<and> constructor_name (JObj own inh) = Inr (JStr ''DocumentReference'') \<longrightarrow>
      transformKey (JObj own inh) =
        Inr (plain [(''id'', get_prop (JObj own inh) ''id''),
                    (''path'', get_prop (JObj own inh) ''path'')]))
   \<and> (\<not> has_property ''toDate'' (JObj own inh)
        \<and> constructor_name (JObj own inh) = Inr n
        \<and> n \<noteq> JStr ''GeoPoint'' \<and> n \<noteq> JStr ''DocumentReference'' \<longrightarrow>
      transformKey (JObj own inh) = transformFirestoreTypes (JObj own inh)
      \<and> (\<forall>v'. transformKey (JObj own inh) = Inr v' \<longrightarrow>
            (\<exists>own'. v' = JObj own' inh \<and> map fst own' = map fst own)))"
proof -
  have "\<not> has_property ''toDate'' (JObj own inh) \<Longrightarrow> constructor_name (JObj own inh) = Inr n \<Longrightarrow>
      n \<noteq> JStr ''GeoPoint'' \<Longrightarrow> n \<noteq> JStr ''DocumentReference'' \<Longrightarrow>
      transformKey (JObj own inh) = transformFirestoreTypes (JObj own inh)"
    by (subst transformKey.simps) simp
  then show ?thesis
    using transformFirestoreTypes_JObj[of own inh]
    by (auto simp: transformKey.simps)
qed

theorem detection_by_capability_and_name_witness:
  "transformKey timestamp = Inr (JDate 10000)
   \<and> transformKey geo_point = Inr (plain [(''latitude'', JNum 52), (''longitude'', JNum 4)])
   \<and> transformKey document_reference = Inr (plain [(''id'', JStr ''u1''), (''path'', JStr ''users/u1'')])
   \<and> transformKey lat_lng = transformFirestoreTypes lat_lng
   \<and> transformFirestoreTypes lat_lng = Inr lat_lng"
proof -
  have w: "transformFirestoreTypes lat_lng = Inr lat_lng"
    by (simp add: lat_lng_def transformKey.simps constructor_name_def)
  show ?thesis
    using detection_by_capability_and_name[of "[(''_seconds'', JNum 10), (''_nanoseconds'', JNum 0)]"
        "[(''constructor'', JFun ''Timestamp'' JUndefined), (''toDate'', JFun ''toDate'' (JDate 10000))]"
        "JStr ''Timestamp''"]
      detection_by_capability_and_name[of "[(''_latitude'', JNum 52), (''_longitude'', JNum 4)]"
        "[(''constructor'', JFun ''GeoPoint'' JUndefined),
           (''latitude'', JNum 52), (''longitude'', JNum 4)]" "JStr ''GeoPoint''"]
      detection_by_capability_and_name[of "[(''_path'', JStr ''users/u1'')]"
        "[(''constructor'', JFun ''DocumentReference'' JUndefined),
           (''id'', JStr ''u1''), (''path'', JStr ''users/u1'')]" "JStr ''DocumentReference''"]
      detection_by_capability_and_name[of "[(''_lat'', JNum 52), (''_long'', JNum 4)]"
        "[(''constructor'', JFun ''LatLng'' JUndefined),
           (''latitude'', JNum 52), (''longitude'', JNum 4)]" "JStr ''LatLng''"]
      w
    by (simp add: timestamp_def geo_point_def document_reference_def lat_lng_def constructor_name_def)
qed

section \<open>The entry points of the query builder\<close>

lemma QueryBuilder_extend_new:
  "QueryBuilder_extend (heap @ [QueryBuilderObj q]) (length heap) f =
     (Inr (Suc (length heap)), heap @ [QueryBuilderObj q, QueryBuilderObj (f q)])"
  by (simp add: QueryBuilder_extend_def new_obj_def)

lemma on_new_QueryBuilder_extend:
  "on_new_QueryBuilder heap this (\<lambda>h b. QueryBuilder_extend h b f) =
     (Inr (Suc (length heap)),
      heap @ [QueryBuilderObj \<lparr>executor = this, queries = [], limitVal = None, orderByObj = []\<rparr>,
              QueryBuilderObj (f \<lparr>executor = this, queries = [], limitVal = None, orderByObj = []\<rparr>)])"
  by (simp add: on_new_QueryBuilder_def new_QueryBuilder_def new_obj_def QueryBuilder_extend_new)

lemma limit_nonneg:
  "0 \<le> n \<Longrightarrow>
   limit heap this n =
     (Inr (Suc (length heap)),
      heap @ [QueryBuilderObj \<lparr>executor = this, queries = [], limitVal = None, orderByObj = []\<rparr>,
              QueryBuilderObj \<lparr>executor = this, queries = [], limitVal = Some n, orderByObj = []\<rparr>])"
  by (simp add: limit_def QueryBuilder_limit_def on_new_QueryBuilder_extend)

text \<open>
  C4: for every \<open>n < 0\<close>, \<^verbatim>\<open>limit(n)\<close> throws the error
  \<^verbatim>\<open>limitVal must be greater than 0. It received: n\<close> and leaves the heap as it was: no
  builder is made, nothing is clamped, and the store is not among the things the call can
  reach. For every \<open>n \<ge> 0\<close> the call returns the address of a new builder, bound to the
  repository and carrying the limit \<open>n\<close>, and changes no object that existed before.
\<close>

theorem limit_outcomes:
  "(n < 0 \<longrightarrow>
      limit heap this n =
        (Inl (Error None (''limitVal must be greater than 0. It received: '' @ string_of_int n)), heap))
   \<and> (0 \<le> n \<longrightarrow>
      (\<exists>b heap'. limit heap this n = (Inr b, heap')
         \<and> length heap \<le> b \<and> b < length heap'
         \<and> heap' ! b = QueryBuilderObj \<lparr>executor = this, queries = [], limitVal = Some n, orderByObj = []\<rparr>
         \<and> take (length heap) heap' = heap))"
  by (auto simp: limit_def QueryBuilder_limit_def on_new_QueryBuilder_extend nth_append)

theorem limit_outcomes_witness:
  "limit posts_heap 0 (- 1) =
     (Inl (Error None ''limitVal must be greater than 0. It received: -1''), posts_heap)
   \<and> (\<exists>b heap'. limit posts_heap 0 5 = (Inr b, heap')
         \<and> length posts_heap \<le> b \<and> b < length heap'
         \<and> heap' ! b = QueryBuilderObj \<lparr>executor = 0, queries = [], limitVal = Some 5, orderByObj = []\<rparr>
         \<and> take (length posts_heap) heap' = posts_heap)"
  using limit_outcomes[of "- 1" posts_heap 0] limit_outcomes[of 5 posts_heap 0]
  by (simp add: string_of_int_def string_of_nat.simps digit_def)

lemma find_all_eq:
  "this < length heap \<Longrightarrow> heap ! this = RepositoryObj r \<Longrightarrow>
   find_all execute heap this = Inr (execute r [] None [] False)"
  by (simp add: find_all_def new_QueryBuilder_def new_obj_def QueryBuilder_find_def nth_append)

lemma clause_adding_call_cases:
  "clause_adding_call heap this c =
     (case c of Limit n \<Rightarrow> limit heap this n
      | _ \<Rightarrow> (Inr (Suc (length heap)), snd (clause_adding_call heap this c)))"
  by (cases c)
    (simp_all add: whereEqualTo_def whereGreaterThan_def whereGreaterOrEqualThan_def whereLessThan_def
      whereLessOrEqualThan_def whereArrayContains_def orderByAscending_def orderByDescending_def
      QueryBuilder_where_def QueryBuilder_orderBy_def on_new_QueryBuilder_extend)

lemma clause_adding_call_heap:
  "\<exists>new. snd (clause_adding_call heap this c) = heap @ new \<and>
     (\<forall>b. fst (clause_adding_call heap this c) = Inr b \<longrightarrow>
        b = Suc (length heap) \<and> length new = 2 \<and> (\<exists>q. new ! 1 = QueryBuilderObj q \<and> executor q = this))"
  by (cases c)
    (auto simp: whereEqualTo_def whereGreaterThan_def whereGreaterOrEqualThan_def whereLessThan_def
      whereLessOrEqualThan_def whereArrayContains_def orderByAscending_def orderByDescending_def
      QueryBuilder_where_def QueryBuilder_orderBy_def on_new_QueryBuilder_extend
      limit_def QueryBuilder_limit_def)

text \<open>
  C9: for every repository \<open>r\<close> (the object at the address \<open>this\<close> of the heap) and every
  clause-adding call \<open>c\<close> of the nine, the call changes no object that existed before, the
  repository among them; \<^verbatim>\<open>find()\<close> on the repository gives afterwards what it gave before;
  what the call returns is the address of a new object, a builder bound to the
  repository; and the call does return one unless it is \<^verbatim>\<open>limit\<close> of a negative number.
\<close>

theorem clause_calls_frame:
  assumes "this < length heap" and "heap ! this = RepositoryObj r"
    and "clause_adding_call heap this c = (res, heap')"
  shows "take (length heap) heap' = heap
    \<and> heap' ! this = RepositoryObj r
    \<and> find_all execute heap' this = find_all execute heap this
    \<and> (\<forall>b. res = Inr b \<longrightarrow>
          length heap \<le> b \<and> b < length heap' \<and> (\<exists>q. heap' ! b = QueryBuilderObj q \<and> executor q = this))
    \<and> ((\<forall>n. c = Limit n \<longrightarrow> 0 \<le> n) \<longrightarrow> (\<exists>b. res = Inr b))"
proof -
  from clause_adding_call_heap[of heap "this" c] assms(3)
  obtain new where new: "heap' = heap @ new"
    and b: "\<And>b. res = Inr b \<Longrightarrow>
        b = Suc (length heap) \<and> length new = 2 \<and> (\<exists>q. new ! 1 = QueryBuilderObj q \<and> executor q = this)"
    by auto
  have 1: "take (length heap) heap' = heap" by (simp add: new)
  have 2: "heap' ! this = RepositoryObj r" using assms(1,2) by (simp add: new nth_append)
  have 3: "find_all execute heap' this = find_all execute heap this"
    using find_all_eq[OF assms(1,2), of execute] find_all_eq[of "this" heap' r execute] 2 assms(1)
    by (simp add: new)
  have 4: "\<forall>b. res = Inr b \<longrightarrow>
          length heap \<le> b \<and> b < length heap' \<and> (\<exists>q. heap' ! b = QueryBuilderObj q \<and> executor q = this)"
    using b by (auto simp: new nth_append)
  have 5: "(\<forall>n. c = Limit n \<longrightarrow> 0 \<le> n) \<longrightarrow> (\<exists>b. res = Inr b)"
  proof (cases c)
    case (Limit n)
    then show ?thesis using assms(3) limit_nonneg[of n heap "this"] by auto
  qed (use assms(3) clause_adding_call_cases[of heap "this" c] in auto)
  from 1 2 3 4 5 show ?thesis by blast
qed

theorem clause_calls_frame_witness:
  "0 < length posts_heap \<and> posts_heap ! 0 = RepositoryObj posts_repository
   \<and> clause_adding_call posts_heap 0 (WhereEqualTo (Accessor [''address'', ''city'']) (JStr ''Oslo'')) =
       (Inr 2,
        posts_heap @
          [QueryBuilderObj \<lparr>executor = 0, queries = [], limitVal = None, orderByObj = []\<rparr>,
           QueryBuilderObj \<lparr>executor = 0,
              queries = [\<lparr>ql_field = ''address.city'', ql_operator = Equal, ql_value = JStr ''Oslo''\<rparr>],
              limitVal = None, orderByObj = []\<rparr>])
   \<and> find_all (\<lambda>r q l ob single. (path r, q, l, ob, single))
         (posts_heap @
          [QueryBuilderObj \<lparr>executor = 0, queries = [], limitVal = None, orderByObj = []\<rparr>,
           QueryBuilderObj \<lparr>executor = 0,
              queries = [\<lparr>ql_field = ''address.city'', ql_operator = Equal, ql_value = JStr ''Oslo''\<rparr>],
              limitVal = None, orderByObj = []\<rparr>]) 0 =
       find_all (\<lambda>r q l ob single. (path r, q, l, ob, single)) posts_heap 0"
proof -
  let ?h' = "posts_heap @
          [QueryBuilderObj \<lparr>executor = 0, queries = [], limitVal = None, orderByObj = []\<rparr>,
           QueryBuilderObj \<lparr>executor = 0,
              queries = [\<lparr>ql_field = ''address.city'', ql_operator = Equal, ql_value = JStr ''Oslo''\<rparr>],
              limitVal = None, orderByObj = []\<rparr>]"
  have h1: "0 < length posts_heap" by (simp add: posts_heap_def)
  have h2: "posts_heap ! 0 = RepositoryObj posts_repository" by (simp add: posts_heap_def)
  have h3: "clause_adding_call posts_heap 0 (WhereEqualTo (Accessor [''address'', ''city'']) (JStr ''Oslo'')) =
       (Inr 2, ?h')"
    by (simp add: posts_heap_def whereEqualTo_def on_new_QueryBuilder_def new_QueryBuilder_def
        new_obj_def QueryBuilder_where_def QueryBuilder_extend_def)
  from clause_calls_frame[OF h1 h2 h3, of "\<lambda>r q l ob single. (path r, q, l, ob, single)"] h1 h2 h3
  show ?thesis by blast
qed

section \<open>Validation\<close>

text \<open>
  C8: \<^verbatim>\<open>validate(item)\<close> resolves to the list of violations the validation module's
  \<^verbatim>\<open>validate\<close> resolves to; when the import of the module throws an error whose code is
  \<^verbatim>\<open>MODULE_NOT_FOUND\<close> it fails with the setup error (which no list of violations is);
  every other error, thrown by the import or by the module's call, or the rejection of
  the module's promise, is passed on unchanged.
\<close>

theorem validate_outcomes:
  "(imported = Inr classValidator
      \<and> classValidator (instantiate (entityConstructor (colMetadata this)) item) = Inr (Inr violations) \<longrightarrow>
        validate imported this item = Inr violations)
   \<and> (imported = Inl err \<and> error_code err = Some ''MODULE_NOT_FOUND'' \<longrightarrow>
        validate imported this item = Inl (Error None class_validator_not_installed))
   \<and> (imported = Inl err \<and> error_code err \<noteq> Some ''MODULE_NOT_FOUND'' \<longrightarrow>
        validate imported this item = Inl err)
   \<and> (imported = Inr classValidator
      \<and> classValidator (instantiate (entityConstructor (colMetadata this)) item) = Inl err
      \<and> error_code err \<noteq> Some ''MODULE_NOT_FOUND'' \<longrightarrow>
        validate imported this item = Inl err)
   \<and> (imported = Inr classValidator
      \<and> classValidator (instantiate (entityConstructor (colMetadata this)) item) = Inr (Inl err) \<longrightarrow>
        validate imported this item = Inl err)
   \<and> Inl (Error None class_validator_not_installed) \<noteq> (Inr violations :: error + 'v list)"
  by (auto simp: validate_def)

theorem validate_outcomes_witness:
  "validate module_not_found posts_repository (hydrated_post (StandaloneRepository ''posts/p1/comments''))
     = (Inl (Error None class_validator_not_installed) :: error + string list)
   \<and> validate one_violation posts_repository (hydrated_post (StandaloneRepository ''posts/p1/comments''))
     = Inr [''title must be longer'']
   \<and> validate (Inl TypeError) posts_repository (hydrated_post (StandaloneRepository ''posts/p1/comments''))
     = (Inl TypeError :: error + string list)"
  using validate_outcomes[of module_not_found "\<lambda>e. Inr (Inr [''title must be longer''])" posts_repository
      "hydrated_post (StandaloneRepository ''posts/p1/comments'')" "[''title must be longer'']"
      "Error (Some ''MODULE_NOT_FOUND'') ''Cannot find module''"]
    validate_outcomes[of one_violation "\<lambda>e. Inr (Inr [''title must be longer''])" posts_repository
      "hydrated_post (StandaloneRepository ''posts/p1/comments'')" "[''title must be longer'']"
      "TypeError"]
    validate_outcomes[of "Inl TypeError" "\<lambda>e. Inr (Inr [''title must be longer''])" posts_repository
      "hydrated_post (StandaloneRepository ''posts/p1/comments'')" "[''title must be longer'']"
      "TypeError"]
  by (simp add: module_not_found_def one_violation_def)

end
